theory Spec2Isabelle
  imports Main "HOL-Library.Char_ord" "HOL-Library.List_Lexorder" "HOL-Library.Multiset"
begin

section \<open>Python values: exceptions and results\<close>

text \<open>
  The handlers of \<^verbatim>\<open>src/app.py\<close> are modelled as functions that return either a raised
  exception (\<open>Inl\<close>) or a value (\<open>Inr\<close>).  Everything the handlers read from their
  environment (the clock, the random identifier, the storage medium) is an explicit argument.
\<close>

datatype py_exn = ValueError | OverflowError | KeyError | IntegrityError | OperationalError

type_synonym 'a result = "py_exn + 'a"

definition py_bind :: "'a result \<Rightarrow> ('a \<Rightarrow> 'b result) \<Rightarrow> 'b result" where
  "py_bind r f = (case r of Inl e \<Rightarrow> Inl e | Inr v \<Rightarrow> f v)"

subsection \<open>Rendering an integer in an f-string\<close>

definition digit_char :: "nat \<Rightarrow> char" where
  "digit_char n = char_of (48 + n)"

fun str_nat :: "nat \<Rightarrow> string" where
  "str_nat n = (if n < 10 then [digit_char n] else str_nat (n div 10) @ [digit_char (n mod 10)])"

declare str_nat.simps [simp del]

definition str_int :: "int \<Rightarrow> string" where
  "str_int i = (if i < 0 then CHR ''-'' # str_nat (nat (- i)) else str_nat (nat i))"

section \<open>The \<^verbatim>\<open>datetime\<close> module\<close>

text \<open>
  \<^verbatim>\<open>datetime\<close> and \<^verbatim>\<open>timedelta\<close> objects with the fields the validator touches.  The
  ordinal of a date is the proleptic Gregorian day number of \<^verbatim>\<open>date.toordinal\<close>
  (\<^verbatim>\<open>_ymd2ord\<close>); Python's \<^verbatim>\<open>//\<close> on integers is \<open>div\<close> on \<open>int\<close>.
\<close>

record datetime =
  year :: int
  month :: int
  day :: int
  hour :: int
  minute :: int
  second :: int
  microsecond :: int

record timedelta =
  days :: int
  seconds :: int
  microseconds :: int

definition MINYEAR :: int where "MINYEAR = 1"
definition MAXYEAR :: int where "MAXYEAR = 9999"

definition is_leap :: "int \<Rightarrow> bool" where
  "is_leap y = (y mod 4 = 0 \<and> (y mod 100 \<noteq> 0 \<or> y mod 400 = 0))"

definition DAYS_IN_MONTH :: "int list" where
  "DAYS_IN_MONTH = [-1, 31, 28, 31, 30, 31, 30, 31, 31, 30, 31, 30, 31]"

definition DAYS_BEFORE_MONTH :: "int list" where
  "DAYS_BEFORE_MONTH = [-1, 0, 31, 59, 90, 120, 151, 181, 212, 243, 273, 304, 334]"

definition days_before_year :: "int \<Rightarrow> int" where
  "days_before_year y = (let y1 = y - 1 in y1 * 365 + y1 div 4 - y1 div 100 + y1 div 400)"

definition days_in_month :: "int \<Rightarrow> int \<Rightarrow> int" where
  "days_in_month y m = (if m = 2 \<and> is_leap y then 29 else DAYS_IN_MONTH ! nat m)"

definition days_before_month :: "int \<Rightarrow> int \<Rightarrow> int" where
  "days_before_month y m = DAYS_BEFORE_MONTH ! nat m + (if m > 2 \<and> is_leap y then 1 else 0)"

definition ymd2ord :: "int \<Rightarrow> int \<Rightarrow> int \<Rightarrow> int" where
  "ymd2ord y m d = days_before_year y + days_before_month y m + d"

definition toordinal :: "datetime \<Rightarrow> int" where
  "toordinal dt = ymd2ord (year dt) (month dt) (day dt)"

text \<open>\<^verbatim>\<open>_check_date_fields\<close>: the constructor of a date raises \<^verbatim>\<open>ValueError\<close> outside the calendar.\<close>

definition check_date_fields :: "int \<Rightarrow> int \<Rightarrow> int \<Rightarrow> unit result" where
  "check_date_fields y m d =
     (if \<not> (MINYEAR \<le> y \<and> y \<le> MAXYEAR) then Inl ValueError
      else if \<not> (1 \<le> m \<and> m \<le> 12) then Inl ValueError
      else if \<not> (1 \<le> d \<and> d \<le> days_in_month y m) then Inl ValueError
      else Inr ())"

text \<open>
  The \<^verbatim>\<open>timedelta\<close> constructor normalises to \<open>0 \<le> seconds < 86400\<close> and
  \<open>0 \<le> microseconds < 1000000\<close> and raises \<^verbatim>\<open>OverflowError\<close> beyond 999999999 days.
\<close>

definition timedelta_new :: "int \<Rightarrow> int \<Rightarrow> int \<Rightarrow> timedelta result" where
  "timedelta_new d s us =
     (let s1 = s + us div 1000000;
          us1 = us mod 1000000;
          d1 = d + s1 div 86400;
          s2 = s1 mod 86400
      in if \<bar>d1\<bar> > 999999999 then Inl OverflowError
         else Inr \<lparr>days = d1, seconds = s2, microseconds = us1\<rparr>)"

text \<open>\<^verbatim>\<open>datetime.__sub__\<close> on two naive datetimes.\<close>

definition datetime_sub :: "datetime \<Rightarrow> datetime \<Rightarrow> timedelta result" where
  "datetime_sub a b =
     (let days1 = toordinal a;
          days2 = toordinal b;
          secs1 = second a + minute a * 60 + hour a * 3600;
          secs2 = second b + minute b * 60 + hour b * 3600
      in timedelta_new (days1 - days2) (secs1 - secs2) (microsecond a - microsecond b))"

text \<open>What every \<^verbatim>\<open>datetime\<close> object satisfies, in particular the value of \<^verbatim>\<open>datetime.now()\<close>.\<close>

definition valid_datetime :: "datetime \<Rightarrow> bool" where
  "valid_datetime dt =
     (check_date_fields (year dt) (month dt) (day dt) = Inr ()
      \<and> 0 \<le> hour dt \<and> hour dt < 24 \<and> 0 \<le> minute dt \<and> minute dt < 60
      \<and> 0 \<le> second dt \<and> second dt < 60 \<and> 0 \<le> microsecond dt \<and> microsecond dt < 1000000)"

subsection \<open>\<^verbatim>\<open>datetime.strptime(s, '%Y-%m-%d')\<close>\<close>

text \<open>
  \<^verbatim>\<open>_strptime\<close> compiles the format to the regular expression
  \<^verbatim>\<open>(?P<Y>\d\d\d\d)-(?P<m>1[0-2]|0[1-9]|[1-9])-(?P<d>3[0-1]|[1-2]\d|0[1-9]|[1-9]| [1-9])\<close>,
  takes the first match at the start of the string, raises \<^verbatim>\<open>ValueError\<close> when there is
  none or when the match leaves characters unconverted, converts the three groups with
  \<^verbatim>\<open>int\<close> and builds the date, whose constructor raises \<^verbatim>\<open>ValueError\<close> for a day that
  does not exist.  A matcher returns the list of its matches, in the priority order of the
  alternatives, each with the rest of the input.  Characters are compared by their code,
  so the class \<open>\d\<close> is \<open>[0-9]\<close> on the characters of this model.
\<close>

definition in_range :: "char \<Rightarrow> char \<Rightarrow> char \<Rightarrow> bool" where
  "in_range lo hi c = (lo \<le> c \<and> c \<le> hi)"

definition is_digit :: "char \<Rightarrow> bool" where
  "is_digit c = in_range CHR ''0'' CHR ''9'' c"

definition digit_val :: "char \<Rightarrow> int" where
  "digit_val c = int (of_char c) - 48"

text \<open>\<^verbatim>\<open>int(s)\<close> on a captured group: leading blanks are skipped, the digits are read in base 10.\<close>

definition py_int :: "string \<Rightarrow> int" where
  "py_int s = foldl (\<lambda>a c. 10 * a + digit_val c) 0 (dropWhile (\<lambda>c. c = CHR '' '') s)"

text \<open>
  One character of the class \<open>[lo-hi]\<close>, two characters of two classes, a literal character.
  A single character such as \<open>1\<close> is the class \<open>[1-1]\<close>.
\<close>

definition re_class1 :: "char \<Rightarrow> char \<Rightarrow> string \<Rightarrow> (string \<times> string) list" where
  "re_class1 lo hi s =
     (case s of a # r \<Rightarrow> if in_range lo hi a then [([a], r)] else [] | _ \<Rightarrow> [])"

definition re_class2 ::
    "char \<Rightarrow> char \<Rightarrow> char \<Rightarrow> char \<Rightarrow> string \<Rightarrow> (string \<times> string) list" where
  "re_class2 lo1 hi1 lo2 hi2 s =
     (case s of
        a # b # r \<Rightarrow> if in_range lo1 hi1 a \<and> in_range lo2 hi2 b then [([a, b], r)] else []
      | _ \<Rightarrow> [])"

definition re_lit :: "char \<Rightarrow> string \<Rightarrow> string list" where
  "re_lit c s = (case s of a # r \<Rightarrow> if a = c then [r] else [] | _ \<Rightarrow> [])"

definition re_Y :: "string \<Rightarrow> (string \<times> string) list" where
  "re_Y s =
     (case s of a # b # c # d # r \<Rightarrow>
        if is_digit a \<and> is_digit b \<and> is_digit c \<and> is_digit d then [([a, b, c, d], r)] else []
      | _ \<Rightarrow> [])"

definition re_m :: "string \<Rightarrow> (string \<times> string) list" where
  "re_m s = re_class2 CHR ''1'' CHR ''1'' CHR ''0'' CHR ''2'' s
            @ re_class2 CHR ''0'' CHR ''0'' CHR ''1'' CHR ''9'' s
            @ re_class1 CHR ''1'' CHR ''9'' s"

definition re_d :: "string \<Rightarrow> (string \<times> string) list" where
  "re_d s = re_class2 CHR ''3'' CHR ''3'' CHR ''0'' CHR ''1'' s
            @ re_class2 CHR ''1'' CHR ''2'' CHR ''0'' CHR ''9'' s
            @ re_class2 CHR ''0'' CHR ''0'' CHR ''1'' CHR ''9'' s
            @ re_class1 CHR ''1'' CHR ''9'' s
            @ re_class2 CHR '' '' CHR '' '' CHR ''1'' CHR ''9'' s"

definition re_match :: "string \<Rightarrow> ((string \<times> string \<times> string) \<times> string) list" where
  "re_match s =
     [((Y, m, d), r5).
        (Y, r1) \<leftarrow> re_Y s, r2 \<leftarrow> re_lit CHR ''-'' r1,
        (m, r3) \<leftarrow> re_m r2, r4 \<leftarrow> re_lit CHR ''-'' r3,
        (d, r5) \<leftarrow> re_d r4]"

definition strptime :: "string \<Rightarrow> datetime result" where
  "strptime data_string =
     (case re_match data_string of
        [] \<Rightarrow> Inl ValueError
      | ((Y, m, d), rest) # _ \<Rightarrow>
          if rest \<noteq> [] then Inl ValueError
          else let y = py_int Y; mo = py_int m; dd = py_int d
               in py_bind (check_date_fields y mo dd) (\<lambda>_.
                    Inr \<lparr>year = y, month = mo, day = dd,
                         hour = 0, minute = 0, second = 0, microsecond = 0\<rparr>))"

section \<open>Configuration\<close>

record config =
  EMBASSY_NAME :: string
  MEDICAL_EXAM_REQUIRED :: bool
  MEDICAL_EXAM_VALIDITY_DAYS :: int

section \<open>The medical-exam validator\<close>

text \<open>
  \<^verbatim>\<open>validate_medical_exam\<close>: the \<^verbatim>\<open>try\<close> block, and the handler that catches
  \<^verbatim>\<open>ValueError\<close> only.  The current time \<^verbatim>\<open>datetime.now()\<close> is the argument \<open>now\<close>.
\<close>

definition validate_medical_exam :: "config \<Rightarrow> datetime \<Rightarrow> string \<Rightarrow> (bool \<times> string) result" where
  "validate_medical_exam cfg now exam_date_str =
     (let body =
        py_bind (strptime exam_date_str) (\<lambda>exam_date.
        py_bind (datetime_sub now exam_date) (\<lambda>delta.
          let days_ago = days delta;
              validity_days = MEDICAL_EXAM_VALIDITY_DAYS cfg
          in if days_ago < 0 then
               Inr (False, ''Medical exam date cannot be in the future'')
             else if days_ago > validity_days then
               Inr (False, ''Medical exam must be within the last '' @ str_int validity_days @ '' days'')
             else Inr (True, ''Medical exam is valid'')))
      in case body of
           Inl ValueError \<Rightarrow> Inr (False, ''Invalid date format'')
         | Inl e \<Rightarrow> Inl e
         | Inr r \<Rightarrow> Inr r)"

section \<open>The appointment store\<close>

text \<open>
  One table, \<^verbatim>\<open>appointments\<close>, with the columns of \<^verbatim>\<open>init_db\<close>; the column \<^verbatim>\<open>id\<close> is
  the field \<open>appt_id\<close>.  A table is the list of its rows in storage order.
\<close>

record appointment =
  appt_id :: string
  applicant_name :: string
  email :: string
  passport_number :: string
  phone_number :: string
  appointment_date :: string
  appointment_time :: string
  medical_exam_date :: string
  medical_exam_verified :: int
  status :: string
  created_at :: string
  updated_at :: string

type_synonym table = "appointment list"

text \<open>What a request reads from outside the program.\<close>

record env =
  env_now :: datetime
  env_uuid4 :: string
  env_timestamp :: string
  env_commit_error :: "py_exn option"

text \<open>
  A \<^verbatim>\<open>sqlite3\<close> connection: the committed table, the table as the connection sees it, and
  whether a transaction is open.  A data-modifying statement opens a transaction; closing
  the connection discards what was not committed.
\<close>

record connection =
  committed :: table
  working :: table
  in_transaction :: bool

definition connect :: "table \<Rightarrow> connection" where
  "connect db = \<lparr>committed = db, working = db, in_transaction = False\<rparr>"

definition commit :: "env \<Rightarrow> connection \<Rightarrow> connection result" where
  "commit e conn =
     (if in_transaction conn then
        (case env_commit_error e of
           Some err \<Rightarrow> Inl err
         | None \<Rightarrow> Inr (conn\<lparr>committed := working conn, in_transaction := False\<rparr>))
      else Inr conn)"

definition rollback :: "connection \<Rightarrow> connection" where
  "rollback conn = conn\<lparr>working := committed conn, in_transaction := False\<rparr>"

definition close_conn :: "connection \<Rightarrow> table" where
  "close_conn conn = committed conn"

text \<open>
  \<^verbatim>\<open>get_db\<close>, the context manager: the body of the \<^verbatim>\<open>with\<close> block is the argument
  \<open>body\<close>.  It returns the value or the exception of the block and the table on disk once
  the connection is closed.
\<close>

definition get_db ::
    "env \<Rightarrow> (connection \<Rightarrow> 'a result \<times> connection) \<Rightarrow> table \<Rightarrow> 'a result \<times> table" where
  "get_db e body db =
     (let conn = connect db in
      case body conn of
        (Inl err, conn1) \<Rightarrow> (Inl err, close_conn (rollback conn1))
      | (Inr v, conn1) \<Rightarrow>
          (case commit e conn1 of
             Inl err \<Rightarrow> (Inl err, close_conn (rollback conn1))
           | Inr conn2 \<Rightarrow> (Inr v, close_conn conn2)))"

text \<open>\<^verbatim>\<open>INSERT INTO appointments\<close>: the primary key rejects an \<^verbatim>\<open>id\<close> already stored.\<close>

definition execute_insert :: "connection \<Rightarrow> appointment \<Rightarrow> unit result \<times> connection" where
  "execute_insert conn r =
     (let conn1 = conn\<lparr>in_transaction := True\<rparr>
      in if appt_id r \<in> set (map appt_id (working conn)) then (Inl IntegrityError, conn1)
         else (Inr (), conn1\<lparr>working := working conn @ [r]\<rparr>))"

text \<open>\<^verbatim>\<open>SELECT * FROM appointments WHERE id = ?\<close> and \<^verbatim>\<open>fetchone\<close>.\<close>

definition select_by_id :: "connection \<Rightarrow> string \<Rightarrow> appointment option" where
  "select_by_id conn i = find (\<lambda>r. appt_id r = i) (working conn)"

text \<open>
  \<^verbatim>\<open>ORDER BY appointment_date DESC, appointment_time DESC\<close> on text columns: strings
  compare character by character.  \<open>sorts_before a b\<close> says that \<open>a\<close> may stand before \<open>b\<close>.
\<close>

definition sorts_before :: "appointment \<Rightarrow> appointment \<Rightarrow> bool" where
  "sorts_before a b =
     (appointment_date a > appointment_date b
      \<or> (appointment_date a = appointment_date b \<and> appointment_time a \<ge> appointment_time b))"

fun insert_ordered :: "appointment \<Rightarrow> table \<Rightarrow> table" where
  "insert_ordered r [] = [r]"
| "insert_ordered r (x # xs) = (if sorts_before r x then r # x # xs else x # insert_ordered r xs)"

definition select_ordered :: "connection \<Rightarrow> table" where
  "select_ordered conn = foldr insert_ordered (working conn) []"

datatype sql_value = Text string | Integer int

type_synonym row_dict = "(string \<times> sql_value) list"

text \<open>\<^verbatim>\<open>dict(row)\<close> for a row of \<^verbatim>\<open>SELECT *\<close>, and for a row of the nine columns of the listing.\<close>

definition dict_all :: "appointment \<Rightarrow> row_dict" where
  "dict_all r =
     [(''id'', Text (appt_id r)), (''applicant_name'', Text (applicant_name r)),
      (''email'', Text (email r)), (''passport_number'', Text (passport_number r)),
      (''phone_number'', Text (phone_number r)),
      (''appointment_date'', Text (appointment_date r)),
      (''appointment_time'', Text (appointment_time r)),
      (''medical_exam_date'', Text (medical_exam_date r)),
      (''medical_exam_verified'', Integer (medical_exam_verified r)),
      (''status'', Text (status r)), (''created_at'', Text (created_at r)),
      (''updated_at'', Text (updated_at r))]"

definition dict_listing :: "appointment \<Rightarrow> row_dict" where
  "dict_listing r =
     [(''id'', Text (appt_id r)), (''applicant_name'', Text (applicant_name r)),
      (''email'', Text (email r)), (''passport_number'', Text (passport_number r)),
      (''appointment_date'', Text (appointment_date r)),
      (''appointment_time'', Text (appointment_time r)),
      (''status'', Text (status r)), (''medical_exam_date'', Text (medical_exam_date r)),
      (''medical_exam_verified'', Integer (medical_exam_verified r))]"

section \<open>The request handlers\<close>

text \<open>
  The form of a request is the list of its (key, value) pairs; \<^verbatim>\<open>data.get(k)\<close> is the first
  value of the key or \<^verbatim>\<open>None\<close>, and \<^verbatim>\<open>data[k]\<close> raises for a key that is absent.  A response
  is a body and a status code.
\<close>

type_synonym form = "(string \<times> string) list"

datatype tvalue =
    TStr string
  | TBool bool
  | TForm form
  | TRow row_dict
  | TRows "row_dict list"

datatype body =
    Json "(string \<times> string) list"
  | Template string "(string \<times> tvalue) list"
  | Plain string
  | RedirectTo string "(string \<times> string) list"

type_synonym response = "body \<times> nat"

definition form_get :: "form \<Rightarrow> string \<Rightarrow> string option" where
  "form_get data k = map_of data k"

definition form_getitem :: "form \<Rightarrow> string \<Rightarrow> string result" where
  "form_getitem data k = (case map_of data k of None \<Rightarrow> Inl KeyError | Some v \<Rightarrow> Inr v)"

text \<open>\<^verbatim>\<open>not data.get(field)\<close>: the key is absent or its value is the empty string.\<close>

definition falsy :: "string option \<Rightarrow> bool" where
  "falsy v = (case v of None \<Rightarrow> True | Some s \<Rightarrow> s = [])"

definition required_fields :: "string list" where
  "required_fields = [''applicant_name'', ''email'', ''passport_number'',
                      ''appointment_date'', ''appointment_time'', ''medical_exam_date'']"

text \<open>The loop over the required fields: the field at which it returns, if it does.\<close>

fun first_missing :: "form \<Rightarrow> string list \<Rightarrow> string option" where
  "first_missing data [] = None"
| "first_missing data (field # rest) =
     (if falsy (form_get data field) then Some field else first_missing data rest)"

text \<open>\<^verbatim>\<open>list_appointments\<close>\<close>

definition list_appointments :: "config \<Rightarrow> env \<Rightarrow> table \<Rightarrow> response result \<times> table" where
  "list_appointments cfg e db =
     (case get_db e (\<lambda>conn. (Inr (map dict_listing (select_ordered conn)), conn)) db of
        (Inl err, db') \<Rightarrow> (Inl err, db')
      | (Inr appointments, db') \<Rightarrow>
          (Inr (Template ''appointments.html''
                  [(''appointments'', TRows appointments),
                   (''embassy_name'', TStr (EMBASSY_NAME cfg))], 200), db'))"

text \<open>\<^verbatim>\<open>appointment_detail\<close>\<close>

definition appointment_detail ::
    "config \<Rightarrow> env \<Rightarrow> string \<Rightarrow> table \<Rightarrow> response result \<times> table" where
  "appointment_detail cfg e appointment_id db =
     (case get_db e (\<lambda>conn. (Inr (select_by_id conn appointment_id), conn)) db of
        (Inl err, db') \<Rightarrow> (Inl err, db')
      | (Inr None, db') \<Rightarrow> (Inr (Plain ''Appointment not found'', 404), db')
      | (Inr (Some appointment), db') \<Rightarrow>
          (Inr (Template ''appointment_detail.html''
                  [(''appointment'', TRow (dict_all appointment)),
                   (''embassy_name'', TStr (EMBASSY_NAME cfg))], 200), db'))"

text \<open>
  \<^verbatim>\<open>create_appointment\<close>, in three parts: the row built from the form and inserted inside
  \<^verbatim>\<open>get_db\<close> (lines 127 to 149), the \<^verbatim>\<open>try\<close> block, and the handler of \<^verbatim>\<open>Exception\<close>.
\<close>

definition new_row :: "env \<Rightarrow> string \<Rightarrow> form \<Rightarrow> appointment result" where
  "new_row e appointment_id data =
     py_bind (form_getitem data ''applicant_name'') (\<lambda>v_name.
     py_bind (form_getitem data ''email'') (\<lambda>v_email.
     py_bind (form_getitem data ''passport_number'') (\<lambda>v_passport.
     let v_phone = (case form_get data ''phone_number'' of None \<Rightarrow> [] | Some v \<Rightarrow> v) in
     py_bind (form_getitem data ''appointment_date'') (\<lambda>v_date.
     py_bind (form_getitem data ''appointment_time'') (\<lambda>v_time.
     py_bind (form_getitem data ''medical_exam_date'') (\<lambda>v_exam.
       Inr \<lparr>appt_id = appointment_id, applicant_name = v_name, email = v_email,
            passport_number = v_passport, phone_number = v_phone,
            appointment_date = v_date, appointment_time = v_time,
            medical_exam_date = v_exam, medical_exam_verified = 1,
            status = ''confirmed'', created_at = env_timestamp e,
            updated_at = env_timestamp e\<rparr>))))))"

definition insert_appointment :: "env \<Rightarrow> form \<Rightarrow> table \<Rightarrow> response result \<times> table" where
  "insert_appointment e data db =
     (let appointment_id = env_uuid4 e in
      case get_db e
             (\<lambda>conn. case new_row e appointment_id data of
                        Inl err \<Rightarrow> (Inl err, conn)
                      | Inr r \<Rightarrow> execute_insert conn r) db of
        (Inl err, db') \<Rightarrow> (Inl err, db')
      | (Inr _, db') \<Rightarrow>
          (Inr (RedirectTo ''appointment_detail'' [(''appointment_id'', appointment_id)], 302),
           db'))"

definition index_error_page :: "config \<Rightarrow> string \<Rightarrow> form \<Rightarrow> body" where
  "index_error_page cfg message data =
     Template ''index.html''
       [(''error'', TStr message), (''embassy_name'', TStr (EMBASSY_NAME cfg)),
        (''medical_required'', TBool (MEDICAL_EXAM_REQUIRED cfg)), (''form_data'', TForm data)]"

definition create_try :: "config \<Rightarrow> env \<Rightarrow> form \<Rightarrow> table \<Rightarrow> response result \<times> table" where
  "create_try cfg e data db =
     (case first_missing data required_fields of
        Some field \<Rightarrow> (Inr (Json [(''error'', ''Missing required field: '' @ field)], 400), db)
      | None \<Rightarrow>
          if MEDICAL_EXAM_REQUIRED cfg then
            (case py_bind (form_getitem data ''medical_exam_date'')
                          (validate_medical_exam cfg (env_now e)) of
               Inl err \<Rightarrow> (Inl err, db)
             | Inr (is_valid, message) \<Rightarrow>
                 if \<not> is_valid then (Inr (index_error_page cfg message data, 400), db)
                 else insert_appointment e data db)
          else insert_appointment e data db)"

definition create_appointment :: "config \<Rightarrow> env \<Rightarrow> form \<Rightarrow> table \<Rightarrow> response \<times> table" where
  "create_appointment cfg e data db =
     (case create_try cfg e data db of
        (Inl err, db') \<Rightarrow>
          ((Template ''index.html''
              [(''error'', TStr ''An error occurred while creating the appointment''),
               (''embassy_name'', TStr (EMBASSY_NAME cfg)),
               (''medical_required'', TBool (MEDICAL_EXAM_REQUIRED cfg))], 500), db')
      | (Inr resp, db') \<Rightarrow> (resp, db'))"

section \<open>The specification's decision procedure\<close>

text \<open>
  The rules of the specification, written from its words and independently of the code
  above.  Rules 3 to 5 decide on the elapsed days; rule 1 reads the three fields that the
  first two dashes separate.  In the strict shape the fields have four, two and two digits;
  in the lenient shape the month and the day may also have one digit, and the day may be a
  blank and a digit.
\<close>

definition spec_rules :: "int \<Rightarrow> int \<Rightarrow> bool \<times> string" where
  "spec_rules N elapsed =
     (if elapsed < 0 then (False, ''Medical exam date cannot be in the future'')
      else if elapsed > N then
        (False, ''Medical exam must be within the last '' @ str_int N @ '' days'')
      else (True, ''Medical exam is valid''))"

definition not_dash :: "char \<Rightarrow> bool" where
  "not_dash c = (c \<noteq> CHR ''-'')"

definition date_fields :: "string \<Rightarrow> (string \<times> string \<times> string) option" where
  "date_fields s =
     (case dropWhile not_dash s of
        [] \<Rightarrow> None
      | _ # r \<Rightarrow>
          (case dropWhile not_dash r of
             [] \<Rightarrow> None
           | _ # D \<Rightarrow> Some (takeWhile not_dash s, takeWhile not_dash r, D)))"

definition strict_shape :: "string \<times> string \<times> string \<Rightarrow> bool" where
  "strict_shape f =
     (case f of (Y, M, D) \<Rightarrow>
        length Y = 4 \<and> list_all is_digit Y \<and> length M = 2 \<and> list_all is_digit M
        \<and> length D = 2 \<and> list_all is_digit D)"

definition lenient_shape :: "string \<times> string \<times> string \<Rightarrow> bool" where
  "lenient_shape f =
     (case f of (Y, M, D) \<Rightarrow>
        length Y = 4 \<and> list_all is_digit Y
        \<and> (length M = 1 \<or> length M = 2) \<and> list_all is_digit M
        \<and> (((length D = 1 \<or> length D = 2) \<and> list_all is_digit D)
            \<or> (length D = 2 \<and> hd D = CHR '' '' \<and> is_digit (last D))))"

definition spec_parse ::
    "(string \<times> string \<times> string \<Rightarrow> bool) \<Rightarrow> string \<Rightarrow> (int \<times> int \<times> int) option" where
  "spec_parse shape s =
     (case date_fields s of
        None \<Rightarrow> None
      | Some (Y, M, D) \<Rightarrow>
          if shape (Y, M, D) \<and> check_date_fields (py_int Y) (py_int M) (py_int D) = Inr ()
          then Some (py_int Y, py_int M, py_int D) else None)"

definition spec_validate ::
    "(string \<times> string \<times> string \<Rightarrow> bool) \<Rightarrow> int \<Rightarrow> datetime \<Rightarrow> string \<Rightarrow> bool \<times> string" where
  "spec_validate shape N now s =
     (case spec_parse shape s of
        None \<Rightarrow> (False, ''Invalid date format'')
      | Some (y, m, d) \<Rightarrow> spec_rules N (toordinal now - ymd2ord y m d))"

text \<open>The \<^verbatim>\<open>datetime\<close> that \<^verbatim>\<open>strptime\<close> builds from a year, a month and a day.\<close>

definition midnight :: "int \<times> int \<times> int \<Rightarrow> datetime" where
  "midnight ymd = (case ymd of (y, m, d) \<Rightarrow>
     \<lparr>year = y, month = m, day = d, hour = 0, minute = 0, second = 0, microsecond = 0\<rparr>)"

text \<open>The scenario of the specification: a window of 180 days on 2024-06-01.\<close>

definition scenario_cfg :: "bool \<Rightarrow> config" where
  "scenario_cfg required =
     \<lparr>EMBASSY_NAME = ''U.S. Embassy'', MEDICAL_EXAM_REQUIRED = required,
      MEDICAL_EXAM_VALIDITY_DAYS = 180\<rparr>"

definition scenario_now :: datetime where
  "scenario_now = \<lparr>year = 2024, month = 6, day = 1,
                   hour = 15, minute = 30, second = 0, microsecond = 5\<rparr>"

definition scenario_env :: "string \<Rightarrow> env" where
  "scenario_env new_id =
     \<lparr>env_now = scenario_now, env_uuid4 = new_id,
      env_timestamp = ''2024-06-01 15:30:00'', env_commit_error = None\<rparr>"

definition scenario_form :: "string \<Rightarrow> form" where
  "scenario_form exam =
     [(''applicant_name'', ''Jane Doe''), (''email'', ''j@x.com''),
      (''passport_number'', ''P123''), (''appointment_date'', ''2024-07-10''),
      (''appointment_time'', ''09:00''), (''medical_exam_date'', exam)]"

section \<open>Properties of the calendar and of the validator\<close>

lemma py_bind_simps:
  "py_bind (Inl e) f = Inl e" "py_bind (Inr v) f = f v"
  by (simp_all add: py_bind_def)

lemma check_date_fields_Inr:
  "check_date_fields y m d = Inr u \<longleftrightarrow>
     1 \<le> y \<and> y \<le> 9999 \<and> 1 \<le> m \<and> m \<le> 12 \<and> 1 \<le> d \<and> d \<le> days_in_month y m"
  by (auto simp: check_date_fields_def MINYEAR_def MAXYEAR_def)

lemma check_date_fields_Inl:
  "check_date_fields y m d = Inl e \<Longrightarrow> e = ValueError"
  by (simp add: check_date_fields_def split: if_splits)

lemma month_cases:
  "1 \<le> m \<Longrightarrow> m \<le> 12 \<Longrightarrow> m \<in> {1, 2, 3, 4, 5, 6, 7, 8, 9, 10, 11, 12::int}"
  by simp arith

lemma days_in_month_le: "1 \<le> m \<Longrightarrow> m \<le> 12 \<Longrightarrow> days_in_month y m \<le> 31"
  using month_cases [of m] by (auto simp: days_in_month_def DAYS_IN_MONTH_def)

lemma days_before_month_bounds:
  "1 \<le> m \<Longrightarrow> m \<le> 12 \<Longrightarrow> 0 \<le> days_before_month y m \<and> days_before_month y m \<le> 335"
  using month_cases [of m] by (auto simp: days_before_month_def DAYS_BEFORE_MONTH_def)

lemma days_before_year_bounds:
  assumes y: "1 \<le> y" "y \<le> 9999"
  shows "0 \<le> days_before_year y \<and> days_before_year y \<le> 3651694"
proof -
  define z where "z = y - 1"
  from y have z: "0 \<le> z" "z \<le> 9998" by (simp_all add: z_def)
  have a: "0 \<le> z div 4" "z div 4 \<le> 2499" using z by simp_all
  have b: "0 \<le> z div 100" "z div 100 \<le> z div 4" using z by (simp_all add: zdiv_mono2)
  have c: "0 \<le> z div 400" "z div 400 \<le> 24" using z by simp_all
  from z a b c show ?thesis
    unfolding days_before_year_def Let_def z_def [symmetric] by linarith
qed

text \<open>The ordinal of a calendar date lies between the ordinals of 0001-01-01 and 9999-12-31.\<close>

lemma ymd2ord_bounds:
  assumes "check_date_fields y m d = Inr u"
  shows "1 \<le> ymd2ord y m d \<and> ymd2ord y m d \<le> 3652060"
proof -
  from assms have y: "1 \<le> y" "y \<le> 9999" and m: "1 \<le> m" "m \<le> 12"
    and d: "1 \<le> d" "d \<le> days_in_month y m"
    by (simp_all add: check_date_fields_Inr)
  from days_in_month_le [OF m, of y] d have "d \<le> 31" by linarith
  with days_before_year_bounds [OF y] days_before_month_bounds [OF m, of y] d(1)
  show ?thesis unfolding ymd2ord_def by linarith
qed

lemma strptime_Inl: "strptime s = Inl e \<Longrightarrow> e = ValueError"
  by (auto simp: strptime_def py_bind_def Let_def
      split: list.splits if_splits sum.splits prod.splits dest: check_date_fields_Inl)

lemma strptime_Inr:
  assumes "strptime s = Inr dt"
  shows "check_date_fields (year dt) (month dt) (day dt) = Inr ()
         \<and> hour dt = 0 \<and> minute dt = 0 \<and> second dt = 0 \<and> microsecond dt = 0"
  using assms
  by (auto simp: strptime_def py_bind_def Let_def
      split: list.splits if_splits sum.splits prod.splits)

text \<open>
  Subtracting a midnight from a valid \<^verbatim>\<open>datetime\<close> never overflows, and its \<^verbatim>\<open>days\<close> are
  the difference of the two ordinals: the time of day only fills the normalised seconds
  and microseconds.
\<close>

lemma datetime_sub_midnight:
  assumes now: "valid_datetime now"
    and exam: "check_date_fields (year b) (month b) (day b) = Inr ()"
    and mid: "hour b = 0" "minute b = 0" "second b = 0" "microsecond b = 0"
  shows "\<exists>td. datetime_sub now b = Inr td \<and> days td = toordinal now - toordinal b"
proof -
  let ?s = "second now + minute now * 60 + hour now * 3600"
  from now have t: "0 \<le> hour now" "hour now < 24" "0 \<le> minute now" "minute now < 60"
    "0 \<le> second now" "second now < 60" "0 \<le> microsecond now" "microsecond now < 1000000"
    and dn: "check_date_fields (year now) (month now) (day now) = Inr ()"
    by (simp_all add: valid_datetime_def)
  from t have us: "microsecond now div 1000000 = 0" by simp
  from t have "0 \<le> ?s" "?s < 86400" by linarith+
  then have s: "?s div 86400 = 0" by simp
  from ymd2ord_bounds [OF dn] ymd2ord_bounds [OF exam]
  have "\<bar>toordinal now - toordinal b\<bar> \<le> 999999999"
    unfolding toordinal_def by linarith
  then show ?thesis
    by (simp add: datetime_sub_def timedelta_new_def Let_def mid us s)
qed

lemma validate_char:
  assumes "valid_datetime now"
  shows "validate_medical_exam cfg now s =
     Inr (case strptime s of
            Inl _ \<Rightarrow> (False, ''Invalid date format'')
          | Inr d \<Rightarrow> spec_rules (MEDICAL_EXAM_VALIDITY_DAYS cfg) (toordinal now - toordinal d))"
proof (cases "strptime s")
  case (Inl e)
  then have "e = ValueError" by (rule strptime_Inl)
  with Inl show ?thesis by (simp add: validate_medical_exam_def py_bind_simps)
next
  case (Inr d)
  from strptime_Inr [OF Inr] datetime_sub_midnight [OF assms, of d]
  obtain td where "datetime_sub now d = Inr td" "days td = toordinal now - toordinal d"
    by blast
  with Inr show ?thesis
    by (simp add: validate_medical_exam_def py_bind_simps Let_def spec_rules_def)
qed

lemma valid_scenario_now: "valid_datetime scenario_now"
  by (simp add: valid_datetime_def scenario_now_def check_date_fields_def MINYEAR_def
      MAXYEAR_def days_in_month_def DAYS_IN_MONTH_def)

section \<open>The regular expression of \<^verbatim>\<open>strptime\<close> and the fields of a string\<close>

lemma in_range_nat:
  "in_range lo hi c \<longleftrightarrow> (of_char lo :: nat) \<le> of_char c \<and> (of_char c :: nat) \<le> of_char hi"
  by (simp add: in_range_def less_eq_char_def)

lemma is_digit_nat: "is_digit c \<longleftrightarrow> 48 \<le> (of_char c :: nat) \<and> (of_char c :: nat) \<le> 57"
  by (simp add: is_digit_def in_range_nat)

lemma of_char_blank: "(of_char a :: nat) = 32 \<longleftrightarrow> a = CHR '' ''"
proof -
  have "of_char CHR '' '' = (32::nat)" by simp
  then show ?thesis by (metis of_char_eq_iff)
qed

lemma is_digit_not_dash: "is_digit c \<Longrightarrow> not_dash c"
  by (auto simp: is_digit_nat not_dash_def)

lemma is_digit_not_blank: "is_digit c \<Longrightarrow> c \<noteq> CHR '' ''"
  by (auto simp: is_digit_nat)

lemma digit_val_bounds: "is_digit c \<Longrightarrow> 0 \<le> digit_val c \<and> digit_val c \<le> 9"
  by (auto simp: is_digit_nat digit_val_def)

lemma py_int_single: "is_digit e \<Longrightarrow> py_int [e] = digit_val e"
  by (simp add: py_int_def is_digit_not_blank)

lemma py_int_pair: "is_digit e \<Longrightarrow> py_int [e, f] = 10 * digit_val e + digit_val f"
  by (simp add: py_int_def is_digit_not_blank)

lemma py_int_blank: "is_digit f \<Longrightarrow> py_int [CHR '' '', f] = digit_val f"
  by (simp add: py_int_def is_digit_not_blank)

lemma length_1_2:
  "length (M :: 'a list) = 1 \<or> length M = 2 \<Longrightarrow> (\<exists>e. M = [e]) \<or> (\<exists>e f. M = [e, f])"
  by (cases M; cases "tl M"; cases "tl (tl M)") auto

lemma length_4: "length (Y :: 'a list) = 4 \<Longrightarrow> \<exists>a b c d. Y = [a, b, c, d]"
  by (cases Y; cases "tl Y"; cases "tl (tl Y)"; cases "tl (tl (tl Y))"; cases "tl (tl (tl (tl Y)))") auto

subsection \<open>What a match implies\<close>

lemma re_Y_mem:
  "(Y, r) \<in> set (re_Y s) \<Longrightarrow> s = Y @ r \<and> length Y = 4 \<and> list_all is_digit Y"
  by (auto simp: re_Y_def split: list.splits if_splits)

lemma re_lit_mem: "r \<in> set (re_lit c s) \<longleftrightarrow> s = c # r"
  by (auto simp: re_lit_def split: list.splits)

lemma re_class1_mem:
  "(t, r) \<in> set (re_class1 lo hi s) \<longleftrightarrow> (\<exists>a. t = [a] \<and> s = a # r \<and> in_range lo hi a)"
  by (auto simp: re_class1_def split: list.splits)

lemma re_class2_mem:
  "(t, r) \<in> set (re_class2 lo1 hi1 lo2 hi2 s) \<longleftrightarrow>
     (\<exists>a b. t = [a, b] \<and> s = a # b # r \<and> in_range lo1 hi1 a \<and> in_range lo2 hi2 b)"
  by (auto simp: re_class2_def split: list.splits)

lemma re_m_mem:
  assumes "(t, r) \<in> set (re_m s)"
  shows "s = t @ r \<and> (length t = 1 \<or> length t = 2) \<and> list_all is_digit t"
  using assms unfolding re_m_def set_append Un_iff re_class1_mem re_class2_mem
  by (auto simp: is_digit_nat in_range_nat)

lemma re_d_mem:
  assumes "(t, r) \<in> set (re_d s)"
  shows "s = t @ r \<and> (((length t = 1 \<or> length t = 2) \<and> list_all is_digit t)
            \<or> (length t = 2 \<and> hd t = CHR '' '' \<and> is_digit (last t)))"
  using assms unfolding re_d_def set_append Un_iff re_class1_mem re_class2_mem
  by (auto simp: is_digit_nat in_range_nat of_char_blank)

lemma re_match_mem:
  assumes "((Y, M, D), r) \<in> set (re_match s)"
  shows "s = Y @ CHR ''-'' # M @ CHR ''-'' # D @ r \<and> lenient_shape (Y, M, D)"
proof -
  from assms obtain r1 r2 r3 r4 where
    "(Y, r1) \<in> set (re_Y s)" "r2 \<in> set (re_lit CHR ''-'' r1)" "(M, r3) \<in> set (re_m r2)"
    "r4 \<in> set (re_lit CHR ''-'' r3)" "(D, r) \<in> set (re_d r4)"
    by (auto simp: re_match_def)
  then show ?thesis
    using re_Y_mem [of Y r1 s] re_m_mem [of M r3 r2] re_d_mem [of D r r4]
    by (simp add: re_lit_mem lenient_shape_def)
qed

subsection \<open>The fields of a string\<close>

lemma date_fields_append:
  assumes "list_all not_dash Y" "list_all not_dash M"
  shows "date_fields (Y @ CHR ''-'' # M @ CHR ''-'' # D) = Some (Y, M, D)"
proof -
  have Y: "\<And>x. x \<in> set Y \<Longrightarrow> not_dash x" and M: "\<And>x. x \<in> set M \<Longrightarrow> not_dash x"
    using assms by (simp_all add: list_all_iff)
  have nd: "\<not> not_dash CHR ''-''" by (simp add: not_dash_def)
  have 1: "dropWhile not_dash (Y @ CHR ''-'' # M @ CHR ''-'' # D) = CHR ''-'' # M @ CHR ''-'' # D"
    using Y nd by (simp add: dropWhile_append2)
  have 2: "takeWhile not_dash (Y @ CHR ''-'' # M @ CHR ''-'' # D) = Y"
    using Y nd by (simp add: takeWhile_append2)
  have 3: "dropWhile not_dash (M @ CHR ''-'' # D) = CHR ''-'' # D"
    using M nd by (simp add: dropWhile_append2)
  have 4: "takeWhile not_dash (M @ CHR ''-'' # D) = M"
    using M nd by (simp add: takeWhile_append2)
  show ?thesis by (simp add: date_fields_def 1 2 3 4)
qed

lemma date_fields_Some:
  assumes "date_fields s = Some (Y, M, D)"
  shows "s = Y @ CHR ''-'' # M @ CHR ''-'' # D"
proof -
  from assms obtain c r where 1: "dropWhile not_dash s = c # r" and Y: "Y = takeWhile not_dash s"
    by (auto simp: date_fields_def split: list.splits)
  from assms 1 obtain c' where 2: "dropWhile not_dash r = c' # D" and M: "M = takeWhile not_dash r"
    by (auto simp: date_fields_def split: list.splits)
  from 1 have "\<not> not_dash c" by (metis dropWhile_eq_Cons_conv)
  then have c: "c = CHR ''-''" by (simp add: not_dash_def)
  from 2 have "\<not> not_dash c'" by (metis dropWhile_eq_Cons_conv)
  then have c': "c' = CHR ''-''" by (simp add: not_dash_def)
  have "s = takeWhile not_dash s @ dropWhile not_dash s" by simp
  also have "\<dots> = Y @ CHR ''-'' # r" by (simp add: 1 Y c)
  also have "r = takeWhile not_dash r @ dropWhile not_dash r" by simp
  also have "\<dots> = M @ CHR ''-'' # D" by (simp add: 2 M c')
  finally show ?thesis .
qed

lemma digits_not_dash: "list_all is_digit xs \<Longrightarrow> list_all not_dash xs"
  by (induction xs) (auto simp: is_digit_not_dash)

subsection \<open>What a string of the lenient shape matches\<close>

lemma re_Y_append:
  assumes "length Y = 4" "list_all is_digit Y"
  shows "re_Y (Y @ r) = [(Y, r)]"
proof -
  from length_4 [OF assms(1)] obtain a b c d where "Y = [a, b, c, d]" by blast
  with assms(2) show ?thesis by (simp add: re_Y_def)
qed

lemma re_lit_Cons: "re_lit c (a # r) = (if a = c then [r] else [])"
  by (simp add: re_lit_def)

lemma month_stage:
  assumes "length M = 1 \<or> length M = 2" "list_all is_digit M" "1 \<le> py_int M" "py_int M \<le> 12"
  shows "concat (map (\<lambda>(m, r3). concat (map (F m) (re_lit CHR ''-'' r3)))
                     (re_m (M @ CHR ''-'' # r))) = F M r"
proof -
  from length_1_2 [OF assms(1)] show ?thesis
  proof (elim disjE exE)
    fix e assume M: "M = [e]"
    with assms have "is_digit e" "1 \<le> digit_val e" by (simp_all add: py_int_single)
    then show ?thesis unfolding M
      by (auto simp: re_m_def re_class1_def re_class2_def re_lit_def in_range_nat
          is_digit_nat digit_val_def)
  next
    fix e f assume M: "M = [e, f]"
    with assms have "is_digit e" "is_digit f" "1 \<le> 10 * digit_val e + digit_val f"
      "10 * digit_val e + digit_val f \<le> 12" by (simp_all add: py_int_pair)
    then show ?thesis unfolding M
      by (auto simp: re_m_def re_class1_def re_class2_def re_lit_def in_range_nat
          is_digit_nat digit_val_def)
  qed
qed

lemma day_stage:
  assumes "((length D = 1 \<or> length D = 2) \<and> list_all is_digit D)
           \<or> (length D = 2 \<and> hd D = CHR '' '' \<and> is_digit (last D))"
    and "1 \<le> py_int D" "py_int D \<le> 31"
  shows "\<exists>rest. re_d D = (D, []) # rest"
  using assms(1)
proof (rule disjE)
  assume "(length D = 1 \<or> length D = 2) \<and> list_all is_digit D"
  then have len: "length D = 1 \<or> length D = 2" and dig: "list_all is_digit D"
    by simp_all
  from length_1_2 [OF len] show ?thesis
  proof (elim disjE exE)
    fix e assume D: "D = [e]"
    with assms dig have "is_digit e" "1 \<le> digit_val e" by (simp_all add: py_int_single)
    then show ?thesis unfolding D
      by (auto simp: re_d_def re_class1_def re_class2_def in_range_nat is_digit_nat
          digit_val_def)
  next
    fix e f assume D: "D = [e, f]"
    with assms dig have "is_digit e" "is_digit f" "1 \<le> 10 * digit_val e + digit_val f"
      "10 * digit_val e + digit_val f \<le> 31" by (simp_all add: py_int_pair)
    then show ?thesis unfolding D
      by (auto simp: re_d_def re_class1_def re_class2_def in_range_nat is_digit_nat
          digit_val_def)
  qed
next
  assume "length D = 2 \<and> hd D = CHR '' '' \<and> is_digit (last D)"
  then have len: "length D = 2" and hd: "hd D = CHR '' ''" and dig: "is_digit (last D)"
    by simp_all
  from len obtain e f where D: "D = [e, f]"
    by (cases D; cases "tl D"; cases "tl (tl D)") auto
  with hd dig assms have e: "e = CHR '' ''" and "is_digit f" "1 \<le> digit_val f"
    by (simp_all add: py_int_blank)
  then show ?thesis unfolding D
    by (auto simp: re_d_def re_class1_def re_class2_def in_range_nat is_digit_nat
        digit_val_def)
qed

lemma lenient_shape_fields:
  assumes "lenient_shape (Y, M, D)"
  shows "length Y = 4" "list_all is_digit Y" "length M = 1 \<or> length M = 2"
    "list_all is_digit M"
    "((length D = 1 \<or> length D = 2) \<and> list_all is_digit D)
      \<or> (length D = 2 \<and> hd D = CHR '' '' \<and> is_digit (last D))"
  using assms by (auto simp: lenient_shape_def)

lemma re_match_fields:
  assumes shape: "lenient_shape (Y, M, D)"
    and chk: "check_date_fields (py_int Y) (py_int M) (py_int D) = Inr ()"
  shows "\<exists>rest. re_match (Y @ CHR ''-'' # M @ CHR ''-'' # D) = ((Y, M, D), []) # rest"
proof -
  note sh = lenient_shape_fields [OF shape]
  from chk have m: "1 \<le> py_int M" "py_int M \<le> 12" and d: "1 \<le> py_int D"
    and dm: "py_int D \<le> days_in_month (py_int Y) (py_int M)"
    by (simp_all add: check_date_fields_Inr)
  from dm days_in_month_le [OF m, of "py_int Y"] have d31: "py_int D \<le> 31" by linarith
  from day_stage [OF sh(5) d d31] obtain rest where rd: "re_d D = (D, []) # rest" by blast
  have "re_match (Y @ CHR ''-'' # M @ CHR ''-'' # D)
        = map (\<lambda>(d, y). ((Y, M, d), y)) (re_d D)"
    unfolding re_match_def
    by (simp add: re_Y_append [OF sh(1) sh(2)] re_lit_Cons month_stage [OF sh(3) sh(4) m])
  then show ?thesis by (simp add: rd)
qed

lemma strptime_spec_parse:
  "strptime s = (case spec_parse lenient_shape s of
                   None \<Rightarrow> Inl ValueError
                 | Some ymd \<Rightarrow> Inr (midnight ymd))"
proof (cases "spec_parse lenient_shape s")
  case (Some ymd)
  then obtain Y M D where f: "date_fields s = Some (Y, M, D)"
    and shape: "lenient_shape (Y, M, D)"
    and chk: "check_date_fields (py_int Y) (py_int M) (py_int D) = Inr ()"
    and ymd: "ymd = (py_int Y, py_int M, py_int D)"
    by (auto simp: spec_parse_def split: option.splits if_splits)
  from date_fields_Some [OF f] have s: "s = Y @ CHR ''-'' # M @ CHR ''-'' # D" .
  from re_match_fields [OF shape chk] obtain rest
    where "re_match s = ((Y, M, D), []) # rest" unfolding s by blast
  then have "strptime s = Inr (midnight ymd)"
    by (simp add: strptime_def chk py_bind_simps ymd midnight_def)
  with Some show ?thesis by simp
next
  case None
  show ?thesis
  proof (cases "strptime s")
    case (Inl e)
    with strptime_Inl [OF Inl] None show ?thesis by simp
  next
    case (Inr dt)
    then obtain Y M D rest where rm: "re_match s = ((Y, M, D), []) # rest"
      and chk: "check_date_fields (py_int Y) (py_int M) (py_int D) = Inr ()"
      by (auto simp: strptime_def py_bind_def Let_def
          split: list.splits if_splits sum.splits prod.splits)
    from rm have "((Y, M, D), []) \<in> set (re_match s)" by simp
    from re_match_mem [OF this] have s: "s = Y @ CHR ''-'' # M @ CHR ''-'' # D"
      and shape: "lenient_shape (Y, M, D)" by simp_all
    note sh = lenient_shape_fields [OF shape]
    have "date_fields s = Some (Y, M, D)"
      unfolding s by (rule date_fields_append) (simp_all add: digits_not_dash sh)
    with shape chk have "spec_parse lenient_shape s \<noteq> None"
      by (simp add: spec_parse_def)
    with None show ?thesis by simp
  qed
qed

section \<open>The claims on the validator\<close>

text \<open>
  C10: the validator is total on strings.  For every string, every configuration and every
  current time that is a \<^verbatim>\<open>datetime\<close>, it returns a pair of a validity flag and a message
  and raises nothing: the parse raises \<^verbatim>\<open>ValueError\<close> only, which the handler catches, and
  the subtraction cannot overflow.
\<close>

theorem validate_medical_exam_total:
  assumes "valid_datetime now"
  shows "\<exists>ok msg. validate_medical_exam cfg now s = Inr (ok, msg)"
proof -
  obtain r where "validate_medical_exam cfg now s = Inr r"
    by (simp add: validate_char [OF assms])
  then show ?thesis by (cases r) simp
qed

theorem validate_medical_exam_total_witness:
  "valid_datetime scenario_now
   \<and> (\<exists>ok msg. validate_medical_exam (scenario_cfg True) scenario_now ''not-a-date''
                 = Inr (ok, msg))"
  using valid_scenario_now
    validate_medical_exam_total [OF valid_scenario_now, of "scenario_cfg True" "''not-a-date''"]
  by simp

end
